theory Spec2Isabelle
  imports Main "HOL-Library.Word"
begin

section \<open>Data model of the users service\<close>

text \<open>
  The embedding follows \<^verbatim>\<open>src/backend/src/users/users.service.ts\<close>. The service
  talks to three collaborators: the Mongoose user model (persistence), the Cloudinary
  service (image store) and the preferences service. Persistence is an explicit document
  store in the state; every call to a collaborator and every call to the logger is
  appended to a trace, in the order the source issues it. An exception is the \<open>Inl\<close>
  side of the result, and the state reached when it is thrown is returned with it.
\<close>

datatype OperationStatus = SUCCESS | ERROR

text \<open>
  The enumeration \<^verbatim>\<open>ROLE\<close> lives in \<^verbatim>\<open>auth/enums/role.enum\<close>; the service uses
  \<^verbatim>\<open>ROLE.ADMIN\<close> only. Modelled from the spec: the role is one of a fixed enumeration,
  a standard user or an administrator.
\<close>

datatype ROLE = USER | ADMIN

text \<open>
  Modelled from the spec: the persisted shape of a user document of
  \<^verbatim>\<open>users.schema\<close>, \<^verbatim>\<open>{id, email, password?, firstName?, lastName?, bio?, country?,
  city?, website?, socials:{github?,twitter?,instagram?,linkedin?}, avatar?:{url,publicId},
  role}\<close>. The id is the key of the document store. A field marked \<^verbatim>\<open>?\<close> is an option.
\<close>

record Avatar =
  url :: string
  publicId :: string

record Socials =
  github :: "string option"
  twitter :: "string option"
  instagram :: "string option"
  linkedin :: "string option"

record User =
  email :: string
  password :: "string option"
  firstName :: "string option"
  lastName :: "string option"
  bio :: "string option"
  country :: "string option"
  city :: "string option"
  website :: "string option"
  socials :: Socials
  avatar :: "Avatar option"
  role :: ROLE

text \<open>
  \<^verbatim>\<open>UpdateUserDTO\<close>: the ten fields \<^verbatim>\<open>updateUser\<close> reads from the patch, each a
  string that may be missing.
\<close>

record UpdateUserDTO =
  dto_bio :: "string option"
  dto_country :: "string option"
  dto_city :: "string option"
  dto_firstName :: "string option"
  dto_lastName :: "string option"
  dto_website :: "string option"
  dto_github :: "string option"
  dto_twitter :: "string option"
  dto_instagram :: "string option"
  dto_linkedin :: "string option"

text \<open>
  \<^verbatim>\<open>CreateUserDTO\<close>: \<^verbatim>\<open>createUser\<close> reads its \<^verbatim>\<open>id\<close> field and hands the whole
  object to the user model. Modelled from the spec: the creation input carries the
  email of the account.
\<close>

record CreateUserDTO =
  create_id :: "string option"
  create_email :: string

record UserIdDTO =
  userId :: string

text \<open>
  \<^verbatim>\<open>Express.Multer.File\<close> is declared by the typings of the upload middleware: a file
  object with its name, its size and its bytes. The service reads none of these fields;
  it tests only whether the object is there.
\<close>

record Multer_File =
  originalname :: string
  size :: nat
  buffer :: "8 word list"

text \<open>
  What is logged or thrown: a bare message, or the object
  \<^verbatim>\<open>{status, message, data: {}}\<close>.
\<close>

datatype payload = Text string | Body OperationStatus string

datatype exn = BadRequestException payload | NotFoundException payload

datatype event =
    Logger_error payload
  | Logger_log string
  | FindById string
  | UpdateOne string
  | Create CreateUserDTO
  | CreatePreferences "string option"
  | DeleteImage string
  | UploadImage Multer_File

record world =
  users :: "string \<rightharpoonup> User"
  trace :: "event list"

record 'd HttpResponseType =
  status :: OperationStatus
  message :: string
  data :: 'd

section \<open>Collaborators\<close>

definition logger_error :: "payload \<Rightarrow> world \<Rightarrow> world" where
  "logger_error p w = w\<lparr>trace := trace w @ [Logger_error p]\<rparr>"

definition logger_log :: "string \<Rightarrow> world \<Rightarrow> world" where
  "logger_log m w = w\<lparr>trace := trace w @ [Logger_log m]\<rparr>"

definition findById :: "string \<Rightarrow> world \<Rightarrow> User option \<times> world" where
  "findById i w = (users w i, w\<lparr>trace := trace w @ [FindById i]\<rparr>)"

text \<open>
  \<^verbatim>\<open>user.updateOne(update)\<close> on a fetched document: the update is applied to the
  stored document with that id.
\<close>

definition updateOne :: "string \<Rightarrow> (User \<Rightarrow> User) \<Rightarrow> world \<Rightarrow> world" where
  "updateOne i f w =
     w\<lparr>users := (case users w i of None \<Rightarrow> users w | Some u \<Rightarrow> (users w)(i \<mapsto> f u)),
       trace := trace w @ [UpdateOne i]\<rparr>"

text \<open>
  The image store. \<^verbatim>\<open>deleteImage\<close> is awaited and its result dropped.
  \<^verbatim>\<open>uploadImage\<close> answers with \<^verbatim>\<open>(secure_url, public_id)\<close>, or rejects (\<open>None\<close>):
  the answer is the store's, so it is a parameter of the service.
\<close>

type_synonym CloudinaryService = "Multer_File \<Rightarrow> (string \<times> string) option"

definition deleteImage :: "string \<Rightarrow> world \<Rightarrow> world" where
  "deleteImage pid w = w\<lparr>trace := trace w @ [DeleteImage pid]\<rparr>"

definition createPreferences :: "string option \<Rightarrow> world \<Rightarrow> world" where
  "createPreferences k w = w\<lparr>trace := trace w @ [CreatePreferences k]\<rparr>"

text \<open>
  Modelled from the spec: \<^verbatim>\<open>userModel.create\<close> persists a new user record from the
  given fields under a unique id assigned by the persistence layer (the argument
  \<open>oid\<close>); the role defaults to the lowest-privilege value.
\<close>

definition new_user :: "CreateUserDTO \<Rightarrow> User" where
  "new_user d =
     \<lparr>email = create_email d, password = None, firstName = None, lastName = None,
      bio = None, country = None, city = None, website = None,
      socials = \<lparr>github = None, twitter = None, instagram = None, linkedin = None\<rparr>,
      avatar = None, role = USER\<rparr>"

definition create :: "string \<Rightarrow> CreateUserDTO \<Rightarrow> world \<Rightarrow> world" where
  "create oid d w = w\<lparr>users := (users w)(oid \<mapsto> new_user d), trace := trace w @ [Create d]\<rparr>"

text \<open>JavaScript truthiness of an optional string: present and not the empty string.\<close>

definition truthy :: "string option \<Rightarrow> bool" where
  "truthy v = (case v of None \<Rightarrow> False | Some s \<Rightarrow> s \<noteq> [])"

text \<open>
  Modelled from the spec: \<^verbatim>\<open>startsWithHttp\<close> of \<^verbatim>\<open>utils/starts-with-http\<close>, which
  normalizes a link by prefixing a scheme when it is missing: \<^verbatim>\<open>example.com\<close> becomes
  \<^verbatim>\<open>https://example.com\<close>, and a value that carries a scheme is returned as it is.
\<close>

definition startsWithHttp :: "string \<Rightarrow> string" where
  "startsWithHttp s =
     (if take 7 s = ''http://'' \<or> take 8 s = ''https://'' then s else ''https://'' @ s)"

section \<open>The service\<close>

definition getUserById :: "string \<Rightarrow> world \<Rightarrow> (exn + User HttpResponseType) \<times> world" where
  "getUserById i w =
     (case findById i w of
        (None, w1) \<Rightarrow>
          (Inl (NotFoundException (Text ''User not found'')),
           logger_error (Body ERROR ''User not found'') w1)
      | (Some user, w1) \<Rightarrow>
          (Inr \<lparr>status = SUCCESS, message = '''', data = user\<rparr>, w1))"

definition makeAdmin :: "UserIdDTO \<Rightarrow> world \<Rightarrow> (exn + unit HttpResponseType) \<times> world" where
  "makeAdmin userIdDto w =
     (case findById (userId userIdDto) w of
        (None, w1) \<Rightarrow>
          (Inl (NotFoundException (Text ''User not found'')),
           logger_error (Body ERROR ''User not found'') w1)
      | (Some user, w1) \<Rightarrow>
          (Inr \<lparr>status = SUCCESS, message = ''User role updated successfully'', data = ()\<rparr>,
           updateOne (userId userIdDto) (\<lambda>u. u\<lparr>role := ADMIN\<rparr>) w1))"

text \<open>
  The \<^verbatim>\<open>$set\<close> document of \<^verbatim>\<open>updateUser\<close>: \<^verbatim>\<open>...(dto.f && {f: dto.f})\<close> contributes
  the field when the patch value is truthy and nothing otherwise.
\<close>

definition set_fields :: "UpdateUserDTO \<Rightarrow> User \<Rightarrow> User" where
  "set_fields d u =
     u\<lparr>bio := (if truthy (dto_bio d) then dto_bio d else bio u),
       country := (if truthy (dto_country d) then dto_country d else country u),
       city := (if truthy (dto_city d) then dto_city d else city u),
       firstName := (if truthy (dto_firstName d) then dto_firstName d else firstName u),
       lastName := (if truthy (dto_lastName d) then dto_lastName d else lastName u),
       website := (if truthy (dto_website d)
                   then map_option startsWithHttp (dto_website d) else website u),
       socials := (socials u)
         \<lparr>github := (if truthy (dto_github d)
                      then map_option startsWithHttp (dto_github d) else github (socials u)),
          twitter := (if truthy (dto_twitter d)
                      then map_option startsWithHttp (dto_twitter d) else twitter (socials u)),
          instagram := (if truthy (dto_instagram d)
                      then map_option startsWithHttp (dto_instagram d)
                      else instagram (socials u)),
          linkedin := (if truthy (dto_linkedin d)
                      then map_option startsWithHttp (dto_linkedin d)
                      else linkedin (socials u))\<rparr>\<rparr>"

definition updateUser ::
  "string \<Rightarrow> UpdateUserDTO option \<Rightarrow> world \<Rightarrow> (exn + unit HttpResponseType) \<times> world" where
  "updateUser i updateUserDto w =
     (case updateUserDto of
        None \<Rightarrow>
          (Inl (BadRequestException (Text ''No changes made'')),
           logger_error (Text ''No changes made'') w)
      | Some d \<Rightarrow>
          (case findById i w of
             (None, w1) \<Rightarrow>
               (Inl (NotFoundException (Text ''User not found'')),
                logger_error (Body ERROR ''User not found'') w1)
           | (Some user, w1) \<Rightarrow>
               (Inr \<lparr>status = SUCCESS, message = ''Account updated successfully'', data = ()\<rparr>,
                updateOne i (set_fields d) w1)))"

definition uploadAvatar ::
  "CloudinaryService \<Rightarrow> string \<Rightarrow> Multer_File option \<Rightarrow> world
     \<Rightarrow> (exn + unit HttpResponseType) \<times> world" where
  "uploadAvatar uploadImage i file w =
     (case file of
        None \<Rightarrow>
          (Inl (BadRequestException (Body ERROR ''file is empty'')),
           logger_error (Body ERROR ''file is empty'') w)
      | Some f \<Rightarrow>
          (case findById i w of
             (None, w1) \<Rightarrow>
               (Inl (NotFoundException (Text ''User not found'')),
                logger_error (Body ERROR ''User not found'') w1)
           | (Some user, w1) \<Rightarrow>
               (let w2 = (case avatar user of
                            None \<Rightarrow> w1
                          | Some a \<Rightarrow> if publicId a \<noteq> [] then deleteImage (publicId a) w1 else w1);
                    w3 = w2\<lparr>trace := trace w2 @ [UploadImage f]\<rparr>
                in case uploadImage f of
                     None \<Rightarrow>
                       (Inl (BadRequestException (Text ''file is empty'')),
                        logger_error (Body ERROR ''file is empty'') w3)
                   | Some (secure_url, public_id) \<Rightarrow>
                       (Inr \<lparr>status = SUCCESS, message = ''Updated successfully'', data = ()\<rparr>,
                        updateOne i
                          (\<lambda>u. user\<lparr>avatar := Some \<lparr>url = secure_url, publicId = public_id\<rparr>\<rparr>)
                          w3))))"

text \<open>
  \<^verbatim>\<open>createUser\<close> returns nothing. The two collaborator calls are issued in this
  order; the document \<^verbatim>\<open>create\<close> answers with is dropped, and the preferences are
  requested for \<^verbatim>\<open>createUserDto.id\<close>.
\<close>

definition createUser :: "string \<Rightarrow> CreateUserDTO \<Rightarrow> world \<Rightarrow> world" where
  "createUser oid createUserDto w =
     createPreferences (create_id createUserDto)
       (logger_log ''Creating user preferences''
         (create oid createUserDto
           (logger_log ''Creating a new user'' w)))"

section \<open>Concrete inputs\<close>

text \<open>One stored user with an avatar, in a store that holds nothing else.\<close>

definition old_avatar :: Avatar where
  "old_avatar = \<lparr>url = ''https://img.example/old.png'', publicId = ''old''\<rparr>"

definition user0 :: User where
  "user0 =
     \<lparr>email = ''ada@example.org'', password = Some ''$2b$10$hash'', firstName = Some ''Ada'',
      lastName = None, bio = Some ''hello'', country = None, city = None, website = None,
      socials = \<lparr>github = None, twitter = None, instagram = None, linkedin = None\<rparr>,
      avatar = Some old_avatar, role = USER\<rparr>"

definition world0 :: world where
  "world0 = \<lparr>users = [''u1'' \<mapsto> user0], trace = []\<rparr>"

text \<open>The patch \<^verbatim>\<open>{}\<close>: an object with no field.\<close>

definition empty_patch :: UpdateUserDTO where
  "empty_patch =
     \<lparr>dto_bio = None, dto_country = None, dto_city = None, dto_firstName = None,
      dto_lastName = None, dto_website = None, dto_github = None, dto_twitter = None,
      dto_instagram = None, dto_linkedin = None\<rparr>"

text \<open>
  A patch whose bio is the empty string, with a city, a website without a scheme and a
  github link that has one.
\<close>

definition patch1 :: UpdateUserDTO where
  "patch1 = empty_patch\<lparr>dto_bio := Some '''', dto_city := Some ''Lagos'',
      dto_website := Some ''example.com'', dto_github := Some ''https://github.com/ada''\<rparr>"

definition website_patch :: "string \<Rightarrow> UpdateUserDTO" where
  "website_patch s = empty_patch\<lparr>dto_website := Some s\<rparr>"

text \<open>A file of four bytes, and a file object that is present and holds no byte.\<close>

definition png_file :: Multer_File where
  "png_file = \<lparr>originalname = ''me.png'', size = 4, buffer = [0x89, 0x50, 0x4E, 0x47]\<rparr>"

definition empty_file :: Multer_File where
  "empty_file = \<lparr>originalname = ''empty.png'', size = 0, buffer = []\<rparr>"

text \<open>An image store that rejects a file without bytes and accepts every other file.\<close>

definition strict_cloud :: CloudinaryService where
  "strict_cloud f =
     (if buffer f = [] then None else Some (''https://img.example/new.png'', ''new''))"

text \<open>A creation input; the persistence layer will file the new document under another id.\<close>

definition signup_input :: CreateUserDTO where
  "signup_input = \<lparr>create_id = Some ''dto-id'', create_email = ''grace@example.org''\<rparr>"

section \<open>Basic facts\<close>

lemma users_world0: "users world0 ''u1'' = Some user0" "users world0 ''nobody'' = None"
  by (simp_all add: world0_def)

lemma set_fields_empty_patch: "set_fields empty_patch u = u"
  by (simp add: set_fields_def empty_patch_def truthy_def)

text \<open>The three ways through \<^verbatim>\<open>updateUser\<close>.\<close>

lemma updateUser_absent:
  "updateUser i None w =
     (Inl (BadRequestException (Text ''No changes made'')),
      w\<lparr>trace := trace w @ [Logger_error (Text ''No changes made'')]\<rparr>)"
  by (simp add: updateUser_def logger_error_def)

lemma updateUser_missing:
  "users w i = None \<Longrightarrow>
   updateUser i (Some d) w =
     (Inl (NotFoundException (Text ''User not found'')),
      w\<lparr>trace := trace w @ [FindById i, Logger_error (Body ERROR ''User not found'')]\<rparr>)"
  by (simp add: updateUser_def findById_def logger_error_def)

lemma updateUser_existing:
  "users w i = Some u \<Longrightarrow>
   updateUser i (Some d) w =
     (Inr \<lparr>status = SUCCESS, message = ''Account updated successfully'', data = ()\<rparr>,
      w\<lparr>users := (users w)(i \<mapsto> set_fields d u), trace := trace w @ [FindById i, UpdateOne i]\<rparr>)"
  by (simp add: updateUser_def findById_def updateOne_def)

lemma createUser_effect:
  "createUser oid d w =
     w\<lparr>users := (users w)(oid \<mapsto> new_user d),
       trace := trace w @ [Logger_log ''Creating a new user'', Create d,
                           Logger_log ''Creating user preferences'',
                           CreatePreferences (create_id d)]\<rparr>"
  by (simp add: createUser_def createPreferences_def logger_log_def create_def)

text \<open>
  What each operation has logged when it fails: the error record is the last entry of the
  trace, and it is the object \<^verbatim>\<open>{status, message, data}\<close> in every branch but the
  absent-patch branch of \<^verbatim>\<open>updateUser\<close>.
\<close>

lemma getUserById_failure_logged:
  "fst (getUserById i w) = Inl e \<Longrightarrow>
   e = NotFoundException (Text ''User not found'')
   \<and> trace (snd (getUserById i w)) =
       trace w @ [FindById i, Logger_error (Body ERROR ''User not found'')]"
  by (cases "users w i") (simp_all add: getUserById_def findById_def logger_error_def)

lemma makeAdmin_failure_logged:
  "fst (makeAdmin d w) = Inl e \<Longrightarrow>
   e = NotFoundException (Text ''User not found'')
   \<and> trace (snd (makeAdmin d w)) =
       trace w @ [FindById (userId d), Logger_error (Body ERROR ''User not found'')]"
  by (cases "users w (userId d)") (simp_all add: makeAdmin_def findById_def logger_error_def)

lemma updateUser_failure_logged:
  "fst (updateUser i p w) = Inl e \<Longrightarrow>
   (p = None \<and> e = BadRequestException (Text ''No changes made'')
      \<and> trace (snd (updateUser i p w)) = trace w @ [Logger_error (Text ''No changes made'')])
   \<or> (p \<noteq> None \<and> e = NotFoundException (Text ''User not found'')
      \<and> trace (snd (updateUser i p w)) =
          trace w @ [FindById i, Logger_error (Body ERROR ''User not found'')])"
  by (cases p; cases "users w i")
     (simp_all add: updateUser_absent updateUser_missing updateUser_existing)

lemma uploadAvatar_failure_logged:
  "fst (uploadAvatar cloud i file w) = Inl e \<Longrightarrow>
   \<exists>m tr. (e = BadRequestException (Body ERROR m) \<or> e = BadRequestException (Text m)
            \<or> e = NotFoundException (Text m))
     \<and> trace (snd (uploadAvatar cloud i file w)) = tr @ [Logger_error (Body ERROR m)]
     \<and> (\<forall>p. Logger_error p \<in> set tr \<longrightarrow> Logger_error p \<in> set (trace w))"
  by (auto simp add: uploadAvatar_def findById_def logger_error_def deleteImage_def
        updateOne_def Let_def split: option.splits prod.splits if_splits)

section \<open>Reading a user\<close>

text \<open>
  C7. \<^verbatim>\<open>getUserById\<close> fails with NotFound when no user record matches the id (after
  one lookup and one logged error record), and for an existing id returns the success
  envelope whose data field is the stored user record.
\<close>

theorem getUserById_found_or_NotFound:
  "(users w i = None \<longrightarrow>
      getUserById i w =
        (Inl (NotFoundException (Text ''User not found'')),
         w\<lparr>trace := trace w @ [FindById i, Logger_error (Body ERROR ''User not found'')]\<rparr>))
   \<and> (\<forall>u. users w i = Some u \<longrightarrow>
      getUserById i w =
        (Inr \<lparr>status = SUCCESS, message = '''', data = u\<rparr>,
         w\<lparr>trace := trace w @ [FindById i]\<rparr>))"
  by (simp add: getUserById_def findById_def logger_error_def)

theorem getUserById_found_or_NotFound_witness:
  "users world0 ''nobody'' = None
   \<and> fst (getUserById ''nobody'' world0) = Inl (NotFoundException (Text ''User not found''))
   \<and> users world0 ''u1'' = Some user0
   \<and> fst (getUserById ''u1'' world0) = Inr \<lparr>status = SUCCESS, message = '''', data = user0\<rparr>"
  using getUserById_found_or_NotFound [of world0 "''nobody''"]
    getUserById_found_or_NotFound [of world0 "''u1''"]
  by (simp add: users_world0)

section \<open>Role elevation\<close>

text \<open>
  C8. \<^verbatim>\<open>makeAdmin\<close> fails with NotFound when the user does not exist and then leaves
  the store as it was; for an existing user it sets the role field to the administrator
  value, changes nothing else in the store, and returns the success envelope with no
  payload. It is idempotent: a second application to the same user leaves the document
  store of the first application unchanged and answers as the first did. (The trace
  grows with every call; the state compared is the document store.)
\<close>

theorem makeAdmin_sets_role_idempotent:
  "(users w (userId d) = None \<longrightarrow>
      fst (makeAdmin d w) = Inl (NotFoundException (Text ''User not found''))
      \<and> users (snd (makeAdmin d w)) = users w)
   \<and> (\<forall>u. users w (userId d) = Some u \<longrightarrow>
      fst (makeAdmin d w) =
        Inr \<lparr>status = SUCCESS, message = ''User role updated successfully'', data = ()\<rparr>
      \<and> users (snd (makeAdmin d w)) = (users w)(userId d \<mapsto> u\<lparr>role := ADMIN\<rparr>))
   \<and> users (snd (makeAdmin d (snd (makeAdmin d w)))) = users (snd (makeAdmin d w))
   \<and> fst (makeAdmin d (snd (makeAdmin d w))) = fst (makeAdmin d w)"
  by (cases "users w (userId d)")
     (simp_all add: makeAdmin_def findById_def logger_error_def updateOne_def)

theorem makeAdmin_sets_role_idempotent_witness:
  "users world0 ''nobody'' = None
   \<and> fst (makeAdmin \<lparr>userId = ''nobody''\<rparr> world0) = Inl (NotFoundException (Text ''User not found''))
   \<and> users world0 ''u1'' = Some user0
   \<and> users (snd (makeAdmin \<lparr>userId = ''u1''\<rparr> world0)) ''u1'' = Some (user0\<lparr>role := ADMIN\<rparr>)
   \<and> users (snd (makeAdmin \<lparr>userId = ''u1''\<rparr> (snd (makeAdmin \<lparr>userId = ''u1''\<rparr> world0))))
       = users (snd (makeAdmin \<lparr>userId = ''u1''\<rparr> world0))"
  using makeAdmin_sets_role_idempotent [of world0 "\<lparr>userId = ''nobody''\<rparr>"]
    makeAdmin_sets_role_idempotent [of world0 "\<lparr>userId = ''u1''\<rparr>"]
  by (simp add: users_world0)

section \<open>Profile update\<close>

text \<open>
  C1, as the code has it. The guard of \<^verbatim>\<open>updateUser\<close> is \<^verbatim>\<open>!updateUserDto\<close>: it
  holds for an absent patch and for no object, the empty object included. For every user
  id, an absent patch fails with BadRequest after one logged message and no call to the
  persistence layer, so the store is unchanged. The empty patch \<^verbatim>\<open>{}\<close> also leaves
  every stored user record unchanged, but it is not rejected: the call fails with NotFound
  when no user matches and succeeds otherwise.
\<close>

theorem updateUser_absent_patch_rejected_empty_patch_accepted:
  "updateUser i None w =
     (Inl (BadRequestException (Text ''No changes made'')),
      w\<lparr>trace := trace w @ [Logger_error (Text ''No changes made'')]\<rparr>)
   \<and> users (snd (updateUser i (Some empty_patch) w)) = users w
   \<and> fst (updateUser i (Some empty_patch) w) =
       (case users w i of
          None \<Rightarrow> Inl (NotFoundException (Text ''User not found''))
        | Some u \<Rightarrow>
            Inr \<lparr>status = SUCCESS, message = ''Account updated successfully'', data = ()\<rparr>)"
proof (cases "users w i")
  case None
  then show ?thesis
    by (simp add: updateUser_absent updateUser_missing)
next
  case (Some u)
  then have "(users w)(i \<mapsto> u) = users w"
    by (simp add: map_upd_triv)
  with Some show ?thesis
    by (simp add: updateUser_absent updateUser_existing set_fields_empty_patch)
qed

text \<open>
  C1 as stated fails on the empty patch: for the stored user \<open>u1\<close> the call looks the
  user up, issues an update with an empty \<^verbatim>\<open>$set\<close> and answers with the success
  envelope, not with BadRequest.
\<close>

theorem updateUser_empty_patch_counterexample:
  "updateUser ''u1'' (Some empty_patch) world0 =
     (Inr \<lparr>status = SUCCESS, message = ''Account updated successfully'', data = ()\<rparr>,
      world0\<lparr>trace := [FindById ''u1'', UpdateOne ''u1'']\<rparr>)"
  by (simp add: updateUser_existing [OF users_world0(1)] set_fields_empty_patch)
     (simp add: world0_def)

text \<open>
  C3. For an existing user and a patch, \<^verbatim>\<open>updateUser\<close> overwrites exactly the stored
  fields whose patch value is truthy (present and not the empty string): the five plain
  fields take the patch value, the website and the four social links take the patch value
  after \<^verbatim>\<open>startsWithHttp\<close>. A field whose patch value is absent or falsy keeps its
  stored value; in particular a patch with \<^verbatim>\<open>bio: ""\<close> leaves the stored bio
  unchanged.
\<close>

theorem updateUser_truthy_fields_overwrite:
  assumes "users w i = Some u"
  shows "\<exists>u'. users (snd (updateUser i (Some d) w)) i = Some u'
     \<and> (truthy (dto_bio d) \<longrightarrow> bio u' = dto_bio d)
     \<and> (\<not> truthy (dto_bio d) \<longrightarrow> bio u' = bio u)
     \<and> (truthy (dto_country d) \<longrightarrow> country u' = dto_country d)
     \<and> (\<not> truthy (dto_country d) \<longrightarrow> country u' = country u)
     \<and> (truthy (dto_city d) \<longrightarrow> city u' = dto_city d)
     \<and> (\<not> truthy (dto_city d) \<longrightarrow> city u' = city u)
     \<and> (truthy (dto_firstName d) \<longrightarrow> firstName u' = dto_firstName d)
     \<and> (\<not> truthy (dto_firstName d) \<longrightarrow> firstName u' = firstName u)
     \<and> (truthy (dto_lastName d) \<longrightarrow> lastName u' = dto_lastName d)
     \<and> (\<not> truthy (dto_lastName d) \<longrightarrow> lastName u' = lastName u)
     \<and> (truthy (dto_website d) \<longrightarrow> website u' = map_option startsWithHttp (dto_website d))
     \<and> (\<not> truthy (dto_website d) \<longrightarrow> website u' = website u)
     \<and> (truthy (dto_github d) \<longrightarrow>
          github (socials u') = map_option startsWithHttp (dto_github d))
     \<and> (\<not> truthy (dto_github d) \<longrightarrow> github (socials u') = github (socials u))
     \<and> (truthy (dto_twitter d) \<longrightarrow>
          twitter (socials u') = map_option startsWithHttp (dto_twitter d))
     \<and> (\<not> truthy (dto_twitter d) \<longrightarrow> twitter (socials u') = twitter (socials u))
     \<and> (truthy (dto_instagram d) \<longrightarrow>
          instagram (socials u') = map_option startsWithHttp (dto_instagram d))
     \<and> (\<not> truthy (dto_instagram d) \<longrightarrow> instagram (socials u') = instagram (socials u))
     \<and> (truthy (dto_linkedin d) \<longrightarrow>
          linkedin (socials u') = map_option startsWithHttp (dto_linkedin d))
     \<and> (\<not> truthy (dto_linkedin d) \<longrightarrow> linkedin (socials u') = linkedin (socials u))
     \<and> (dto_bio d = Some '''' \<longrightarrow> bio u' = bio u)"
  by (simp add: updateUser_existing [OF assms] set_fields_def) (simp add: truthy_def)

theorem updateUser_truthy_fields_overwrite_witness:
  "users world0 ''u1'' = Some user0
   \<and> dto_bio patch1 = Some '''' \<and> truthy (dto_city patch1) \<and> \<not> truthy (dto_country patch1)
   \<and> map_option bio (users (snd (updateUser ''u1'' (Some patch1) world0)) ''u1'')
       = Some (Some ''hello'')
   \<and> map_option city (users (snd (updateUser ''u1'' (Some patch1) world0)) ''u1'')
       = Some (Some ''Lagos'')
   \<and> map_option country (users (snd (updateUser ''u1'' (Some patch1) world0)) ''u1'')
       = Some None"
proof -
  have h: "users world0 ''u1'' = Some user0" by (rule users_world0)
  have p: "dto_bio patch1 = Some ''''" "dto_city patch1 = Some ''Lagos''"
    "dto_country patch1 = None"
    by (simp_all add: patch1_def empty_patch_def)
  have u: "bio user0 = Some ''hello''" "country user0 = None"
    by (simp_all add: user0_def)
  from updateUser_truthy_fields_overwrite [OF h, of patch1]
  obtain u' where s: "users (snd (updateUser ''u1'' (Some patch1) world0)) ''u1'' = Some u'"
    and b: "dto_bio patch1 = Some '''' \<longrightarrow> bio u' = bio user0"
    and c: "truthy (dto_city patch1) \<longrightarrow> city u' = dto_city patch1"
    and k: "\<not> truthy (dto_country patch1) \<longrightarrow> country u' = country user0"
    by (elim exE conjE) (rule that)
  from s b c k show ?thesis
    by (simp add: h p u truthy_def)
qed

text \<open>
  C4. For an existing user, every truthy website, github, twitter, instagram or linkedin
  value of the patch is stored as \<^verbatim>\<open>startsWithHttp\<close> returns it: a value that
  carries a scheme is stored unchanged, any other value is stored with
  \<^verbatim>\<open>https://\<close> put in front. A patch with the website \<^verbatim>\<open>example.com\<close> stores
  \<^verbatim>\<open>https://example.com\<close>, and a patch with \<^verbatim>\<open>https://example.com\<close> stores it as it
  is.
\<close>

theorem updateUser_links_get_scheme:
  assumes "users w i = Some u"
  shows "\<exists>u'. users (snd (updateUser i (Some d) w)) i = Some u'
     \<and> (\<forall>s. dto_website d = Some s \<and> s \<noteq> [] \<longrightarrow> website u' = Some (startsWithHttp s))
     \<and> (\<forall>s. dto_github d = Some s \<and> s \<noteq> [] \<longrightarrow> github (socials u') = Some (startsWithHttp s))
     \<and> (\<forall>s. dto_twitter d = Some s \<and> s \<noteq> [] \<longrightarrow>
           twitter (socials u') = Some (startsWithHttp s))
     \<and> (\<forall>s. dto_instagram d = Some s \<and> s \<noteq> [] \<longrightarrow>
           instagram (socials u') = Some (startsWithHttp s))
     \<and> (\<forall>s. dto_linkedin d = Some s \<and> s \<noteq> [] \<longrightarrow>
           linkedin (socials u') = Some (startsWithHttp s))
     \<and> (\<forall>s. take 7 s = ''http://'' \<or> take 8 s = ''https://'' \<longrightarrow> startsWithHttp s = s)
     \<and> (\<forall>s. take 7 s \<noteq> ''http://'' \<and> take 8 s \<noteq> ''https://'' \<longrightarrow>
           startsWithHttp s = ''https://'' @ s)"
  by (simp add: updateUser_existing [OF assms] set_fields_def truthy_def)
     (simp add: startsWithHttp_def)

theorem updateUser_links_get_scheme_witness:
  "users world0 ''u1'' = Some user0
   \<and> map_option website
       (users (snd (updateUser ''u1'' (Some (website_patch ''example.com'')) world0)) ''u1'')
       = Some (Some ''https://example.com'')
   \<and> map_option website
       (users (snd (updateUser ''u1'' (Some (website_patch ''https://example.com'')) world0))
          ''u1'')
       = Some (Some ''https://example.com'')"
proof -
  have h: "users world0 ''u1'' = Some user0" by (rule users_world0)
  have p: "dto_website (website_patch s) = Some s" for s
    by (simp add: website_patch_def)
  from updateUser_links_get_scheme [OF h, of "website_patch ''example.com''"]
    updateUser_links_get_scheme [OF h, of "website_patch ''https://example.com''"]
  show ?thesis
    by (auto simp add: h p)
qed

text \<open>
  C10. For an existing user and every patch, absent or present, \<^verbatim>\<open>updateUser\<close>
  leaves the email, password, role and avatar of the user as they were stored, and it
  touches the record of no other user: identity, credential, authorization and avatar
  state cannot be altered through it.
\<close>

theorem updateUser_identity_fields_unchanged:
  assumes "users w i = Some u"
  shows "map_option (\<lambda>v. (email v, password v, role v, avatar v))
           (users (snd (updateUser i p w)) i)
         = Some (email u, password u, role u, avatar u)
       \<and> (\<forall>j. j \<noteq> i \<longrightarrow> users (snd (updateUser i p w)) j = users w j)"
proof (cases p)
  case None
  then show ?thesis
    by (simp add: updateUser_absent assms)
next
  case (Some d)
  then show ?thesis
    by (simp add: updateUser_existing [OF assms] set_fields_def)
qed

theorem updateUser_identity_fields_unchanged_witness:
  "users world0 ''u1'' = Some user0
   \<and> map_option (\<lambda>v. (email v, password v, role v, avatar v))
       (users (snd (updateUser ''u1'' (Some patch1) world0)) ''u1'')
       = Some (''ada@example.org'', Some ''$2b$10$hash'', USER, Some old_avatar)
   \<and> users (snd (updateUser ''u1'' (Some patch1) world0)) ''nobody'' = None"
proof -
  have h: "users world0 ''u1'' = Some user0" by (rule users_world0)
  from updateUser_identity_fields_unchanged [OF h, of "Some patch1"]
  show ?thesis
    by (simp add: users_world0) (simp add: user0_def)
qed

section \<open>The failure contract\<close>

text \<open>
  C9 at the input where the code departs from it. Every failing branch logs once and
  throws once, and the logged entry is the record \<^verbatim>\<open>{status, message, data}\<close>
  (lemmas \<open>getUserById_failure_logged\<close>, \<open>makeAdmin_failure_logged\<close>,
  \<open>updateUser_failure_logged\<close>, \<open>uploadAvatar_failure_logged\<close>), except in
  \<^verbatim>\<open>updateUser\<close> called with an absent patch: there the logged entry is the bare
  string \<^verbatim>\<open>No changes made\<close>. The NotFound branch of the same operation, next to it,
  logs the record.
\<close>

theorem updateUser_absent_patch_logs_bare_string:
  "updateUser ''u1'' None world0 =
     (Inl (BadRequestException (Text ''No changes made'')),
      world0\<lparr>trace := [Logger_error (Text ''No changes made'')]\<rparr>)
   \<and> updateUser ''nobody'' (Some empty_patch) world0 =
     (Inl (NotFoundException (Text ''User not found'')),
      world0\<lparr>trace := [FindById ''nobody'', Logger_error (Body ERROR ''User not found'')]\<rparr>)"
  by (simp add: updateUser_absent updateUser_missing [OF users_world0(2)])
     (simp add: world0_def)

section \<open>Avatar upload\<close>

text \<open>
  C5, as the code has it. The guard of \<^verbatim>\<open>uploadAvatar\<close> is \<^verbatim>\<open>!avatar\<close>: it holds
  when no file object was supplied. For every user id, a call without a file fails with
  BadRequest after one logged record, before any call to the persistence layer or the
  image store. A file object that is present passes the guard whatever it holds: the
  next entry of the trace is the lookup of the user.
\<close>

theorem uploadAvatar_absent_file_rejected_first:
  "uploadAvatar cloud i None w =
     (Inl (BadRequestException (Body ERROR ''file is empty'')),
      w\<lparr>trace := trace w @ [Logger_error (Body ERROR ''file is empty'')]\<rparr>)
   \<and> take (Suc (length (trace w))) (trace (snd (uploadAvatar cloud i (Some f) w)))
       = trace w @ [FindById i]"
  by (simp add: uploadAvatar_def findById_def logger_error_def deleteImage_def updateOne_def
        Let_def split: option.splits prod.splits)

text \<open>
  C5 as stated fails on a file that is present and empty: with a file of zero bytes for
  the stored user \<open>u1\<close>, the user is looked up, the old asset is deleted and the upload
  is attempted before the call fails with BadRequest, here because the image store
  rejected the empty file.
\<close>

theorem uploadAvatar_empty_file_counterexample:
  "uploadAvatar strict_cloud ''u1'' (Some empty_file) world0 =
     (Inl (BadRequestException (Text ''file is empty'')),
      world0\<lparr>trace := [FindById ''u1'', DeleteImage ''old'', UploadImage empty_file,
                        Logger_error (Body ERROR ''file is empty'')]\<rparr>)"
  by (simp add: uploadAvatar_def findById_def logger_error_def deleteImage_def Let_def
        world0_def user0_def old_avatar_def strict_cloud_def empty_file_def)

text \<open>
  C6. For an existing user with a stored avatar (an avatar whose provider id is set, which
  is what the source tests) and a file, \<^verbatim>\<open>uploadAvatar\<close> looks the user up, issues
  the delete call for the old asset and then the upload call for the new one, in that
  order. When the upload fails, the call fails with BadRequest after logging the error and
  the store is unchanged; when it succeeds, the returned url and id are stored on the user
  record together, as the avatar, and the success envelope is returned.
\<close>

theorem uploadAvatar_delete_then_upload:
  assumes "users w i = Some u" and "avatar u = Some a" and "publicId a \<noteq> []"
  shows "trace (snd (uploadAvatar cloud i (Some f) w)) =
           trace w @ [FindById i, DeleteImage (publicId a), UploadImage f]
             @ (case cloud f of
                  None \<Rightarrow> [Logger_error (Body ERROR ''file is empty'')]
                | Some r \<Rightarrow> [UpdateOne i])
         \<and> fst (uploadAvatar cloud i (Some f) w) =
             (case cloud f of
                None \<Rightarrow> Inl (BadRequestException (Text ''file is empty''))
              | Some r \<Rightarrow> Inr \<lparr>status = SUCCESS, message = ''Updated successfully'', data = ()\<rparr>)
         \<and> users (snd (uploadAvatar cloud i (Some f) w)) =
             (case cloud f of
                None \<Rightarrow> users w
              | Some (secure_url, public_id) \<Rightarrow>
                  (users w)(i \<mapsto> u\<lparr>avatar := Some \<lparr>url = secure_url, publicId = public_id\<rparr>\<rparr>))"
  using assms
  by (cases "cloud f")
     (auto simp add: uploadAvatar_def findById_def logger_error_def deleteImage_def
        updateOne_def Let_def)

theorem uploadAvatar_delete_then_upload_witness:
  "users world0 ''u1'' = Some user0 \<and> avatar user0 = Some old_avatar \<and> publicId old_avatar \<noteq> []
   \<and> trace (snd (uploadAvatar strict_cloud ''u1'' (Some png_file) world0)) =
       [FindById ''u1'', DeleteImage ''old'', UploadImage png_file, UpdateOne ''u1'']
   \<and> users (snd (uploadAvatar strict_cloud ''u1'' (Some png_file) world0)) ''u1'' =
       Some (user0\<lparr>avatar := Some \<lparr>url = ''https://img.example/new.png'', publicId = ''new''\<rparr>\<rparr>)
   \<and> trace (snd (uploadAvatar (\<lambda>f. None) ''u1'' (Some png_file) world0)) =
       [FindById ''u1'', DeleteImage ''old'', UploadImage png_file,
        Logger_error (Body ERROR ''file is empty'')]
   \<and> fst (uploadAvatar (\<lambda>f. None) ''u1'' (Some png_file) world0) =
       Inl (BadRequestException (Text ''file is empty''))"
proof -
  have h1: "users world0 ''u1'' = Some user0" by (rule users_world0)
  have h2: "avatar user0 = Some old_avatar" by (simp add: user0_def)
  have h3: "publicId old_avatar \<noteq> []" by (simp add: old_avatar_def)
  have c: "strict_cloud png_file = Some (''https://img.example/new.png'', ''new'')"
    by (simp add: strict_cloud_def png_file_def)
  have t: "trace world0 = []" by (simp add: world0_def)
  show ?thesis
    using uploadAvatar_delete_then_upload [OF h1 h2 h3, of strict_cloud png_file]
      uploadAvatar_delete_then_upload [OF h1 h2 h3, of "\<lambda>f. None" png_file]
    by (simp add: h1 h2 h3 c t) (simp add: old_avatar_def)
qed

section \<open>Account creation\<close>

text \<open>
  C2 at the input where the code departs from it. \<^verbatim>\<open>createUser\<close> persists exactly
  one user record, whose email is the input email, and requests exactly one preferences
  record; but the key of that request is the \<^verbatim>\<open>id\<close> field of the input, not the id
  under which the persistence layer filed the new user. With the input id \<open>dto-id\<close> and
  the new user filed under \<open>u2\<close>, the preferences are requested for \<open>dto-id\<close>, an id no
  stored user has.
\<close>

theorem createUser_preferences_keyed_by_input_id:
  "createUser ''u2'' signup_input world0 =
     world0\<lparr>users := (users world0)(''u2'' \<mapsto> new_user signup_input),
             trace := [Logger_log ''Creating a new user'', Create signup_input,
                       Logger_log ''Creating user preferences'',
                       CreatePreferences (Some ''dto-id'')]\<rparr>
   \<and> email (new_user signup_input) = ''grace@example.org''
   \<and> users world0 ''dto-id'' = None
   \<and> users (createUser ''u2'' signup_input world0) ''dto-id'' = None"
  by (simp add: createUser_effect) (simp add: world0_def signup_input_def new_user_def)

end
